theory Spec2Isabelle
  imports Complex_Main
begin

section \<open>Spectral transform and harmonic fit of xscale\<close>

text \<open>
  A shallow embedding of \<^verbatim>\<open>xscale/spectral/fft.py\<close> and of the sinusoidal fit of
  \<^verbatim>\<open>xscale/signal/fitting.py\<close>. Floating-point numbers are read as real and complex
  numbers, Python integers as \<open>int\<close>. A lazy, chunked array is read as the array of its
  values: \<^verbatim>\<open>chunk\<close> and \<^verbatim>\<open>rechunk\<close> leave the values alone and do not
  appear. A private function \<^verbatim>\<open>_name\<close> of the source is \<open>priv_name\<close> here.
\<close>

subsection \<open>Errors\<close>

datatype py_error =
  NotImplementedError | KeyError | IndexError | ZeroDivisionError | ValueError | TypeError

definition and_then :: "py_error + 'a \<Rightarrow> ('a \<Rightarrow> py_error + 'b) \<Rightarrow> py_error + 'b" where
  "and_then r f = (case r of Inl e \<Rightarrow> Inl e | Inr v \<Rightarrow> f v)"

subsection \<open>Arrays\<close>

text \<open>
  An N-dimensional array is its shape, whether its dtype is complex, and its items by index
  tuple. Only the items at indices inside the shape mean anything.
\<close>

record ndarray =
  shape :: "nat list"
  iscomplexobj :: bool
  item :: "nat list \<Rightarrow> complex"

datatype attr = Num real | Str string

record DataArray =
  data :: ndarray
  dims :: "string list"
  coords :: "string \<rightharpoonup> real list"
  attrs :: "string \<rightharpoonup> attr"
  name :: "string option"

text \<open>
  \<^verbatim>\<open>array.get_axis_num(di)\<close>: the position of a dimension name. The source calls it
  for the dimensions of the array only.
\<close>

fun index_of :: "string \<Rightarrow> string list \<Rightarrow> nat" where
  "index_of d [] = 0"
| "index_of d (x # xs) = (if x = d then 0 else Suc (index_of d xs))"

text \<open>
  \<^verbatim>\<open>np.asarray(array[di])\<close>: the coordinate of a dimension, the default index
  \<open>0, 1, \<dots>\<close> when the dimension has none.
\<close>

definition coordinate :: "DataArray \<Rightarrow> string \<Rightarrow> real list" where
  "coordinate array di =
     (case coords array di of
        Some c \<Rightarrow> c
      | None \<Rightarrow> map real [0..<shape (data array) ! index_of di (dims array)])"

subsection \<open>The library's transforms\<close>

text \<open>\<^verbatim>\<open>np.fft.rfftfreq(n, d)\<close> and \<^verbatim>\<open>np.fft.fftfreq(n, d)\<close>.\<close>

definition rfftfreq :: "int \<Rightarrow> real \<Rightarrow> py_error + real list" where
  "rfftfreq n d =
     (if real_of_int n * d = 0 then Inl ZeroDivisionError
      else Inr (map (\<lambda>i. real i * (1 / (real_of_int n * d))) [0..<nat (n div 2 + 1)]))"

definition fftfreq :: "int \<Rightarrow> real \<Rightarrow> py_error + real list" where
  "fftfreq n d =
     (if real_of_int n * d = 0 then Inl ZeroDivisionError
      else if n < 0 then Inl ValueError
      else Inr (map (\<lambda>i. real_of_int i * (1 / (real_of_int n * d)))
                 (map int [0..<nat ((n - 1) div 2 + 1)] @
                  map (\<lambda>j. int j - n div 2) [0..<nat (n div 2)])))"

text \<open>The rotation of \<^verbatim>\<open>fftshift\<close>: the indices \<open>p2, \<dots>, n - 1, 0, \<dots>, p2 - 1\<close>.\<close>

definition mylist :: "nat \<Rightarrow> nat list" where
  "mylist n = (let p2 = (n + 1) div 2 in [p2..<n] @ [0..<p2])"

definition np_fftshift :: "real list \<Rightarrow> real list" where
  "np_fftshift c = map (\<lambda>i. c ! i) (mylist (length c))"

text \<open>
  The discrete Fourier transform of the items along one axis, all other indices fixed:
  \<open>X k = \<Sum> m < n. x m * exp (- 2 \<pi> \<i> k m / n)\<close>.
\<close>

definition dft_at :: "(nat \<Rightarrow> complex) \<Rightarrow> nat \<Rightarrow> nat \<Rightarrow> complex" where
  "dft_at x n k =
     sum_list (map (\<lambda>m. x m * cis (- 2 * pi * real k * real m / real n)) [0..<n])"

text \<open>\<^verbatim>\<open>da.fft.fft(x, axis=k)\<close> and \<^verbatim>\<open>da.fft.rfft(x, axis=k)\<close>, without padding.\<close>

definition da_fft :: "ndarray \<Rightarrow> nat \<Rightarrow> py_error + ndarray" where
  "da_fft x k =
     (let n = shape x ! k in
      if n = 0 then Inl ValueError
      else Inr \<lparr>shape = shape x, iscomplexobj = True,
                item = (\<lambda>idx. dft_at (\<lambda>m. item x (idx[k := m])) n (idx ! k))\<rparr>)"

definition da_rfft :: "ndarray \<Rightarrow> nat \<Rightarrow> py_error + ndarray" where
  "da_rfft x k =
     (let n = shape x ! k in
      if n = 0 then Inl ValueError
      else Inr \<lparr>shape = (shape x)[k := n div 2 + 1], iscomplexobj = True,
                item = (\<lambda>idx. dft_at (\<lambda>m. item x (idx[k := m])) n (idx ! k))\<rparr>)"

text \<open>\<^verbatim>\<open>da.take(x, indices, k)\<close>.\<close>

definition da_take :: "ndarray \<Rightarrow> nat list \<Rightarrow> nat \<Rightarrow> ndarray" where
  "da_take x indices k =
     \<lparr>shape = (shape x)[k := length indices], iscomplexobj = iscomplexobj x,
      item = (\<lambda>idx. item x (idx[k := indices ! (idx ! k)]))\<rparr>"

subsection \<open>fft.py\<close>

text \<open>
  \<^verbatim>\<open>_fftshift(x, axes)\<close>: \<open>None\<close> is every axis, an integer is the one axis (here
  \<open>Some [k]\<close>).
\<close>

fun fftshift_axes :: "ndarray \<Rightarrow> nat list \<Rightarrow> ndarray" where
  "fftshift_axes x [] = x"
| "fftshift_axes x (k # ks) = fftshift_axes (da_take x (mylist (shape x ! k)) k) ks"

definition priv_fftshift :: "ndarray \<Rightarrow> nat list option \<Rightarrow> ndarray" where
  "priv_fftshift x axes =
     fftshift_axes x (case axes of None \<Rightarrow> [0..<length (shape x)] | Some ks \<Rightarrow> ks)"

definition priv_detrend :: "DataArray \<Rightarrow> string list \<Rightarrow> py_error + DataArray" where
  "priv_detrend array dimn = Inl NotImplementedError"

definition priv_tapper :: "DataArray \<Rightarrow> string list \<Rightarrow> py_error + DataArray" where
  "priv_tapper array dimn = Inl NotImplementedError"

text \<open>
  \<^verbatim>\<open>array[key]\<close> for a coordinate or dimension name: the coordinate, the default index
  of a dimension without one, \<^verbatim>\<open>KeyError\<close> for any other name.
\<close>

definition getitem :: "DataArray \<Rightarrow> string \<Rightarrow> py_error + real list" where
  "getitem array key =
     (if key \<in> dom (coords array) \<or> key \<in> set (dims array)
      then Inr (coordinate array key) else Inl KeyError)"

text \<open>
  Modelled from the spec: \<^verbatim>\<open>_utils.get_dx\<close>, of a module that is not among the sources:
  the resolution of a dimension is the spacing of its coordinate values.
\<close>

definition get_dx :: "DataArray \<Rightarrow> string \<Rightarrow> py_error + real" where
  "get_dx array di =
     (let c = coordinate array di in
      if length c < 2 then Inl IndexError else Inr (c ! 1 - c ! 0))"

text \<open>
  The variables of the loop of \<^verbatim>\<open>_fft\<close>. The dictionary \<^verbatim>\<open>dx\<close> maps a dimension
  to a resolution or to \<^verbatim>\<open>None\<close>, and the loop writes to it. The warnings are those
  issued so far; those of a call that raises are not kept.
\<close>

record fft_state =
  spectrum_array :: ndarray
  spectrum_coords :: "string \<rightharpoonup> real list"
  dx_dict :: "string \<rightharpoonup> real option"
  first :: bool
  warnings :: "string list"

text \<open>
  The body of the loop for a dimension \<^verbatim>\<open>di\<close> of the array (source lines 180 to 205),
  in three parts: the resolution \<^verbatim>\<open>dx[di]\<close>, inferred when it is \<^verbatim>\<open>None\<close>; the
  branch of the real transform; the branch of the complex transform, with the shift.
\<close>

definition resolution :: "DataArray \<Rightarrow> string \<Rightarrow> fft_state \<Rightarrow> py_error + real" where
  "resolution array di st =
     (case dx_dict st di of
        None \<Rightarrow> Inl KeyError
      | Some None \<Rightarrow> get_dx array di
      | Some (Some v) \<Rightarrow> Inr v)"

definition rfft_pass ::
  "DataArray \<Rightarrow> (string \<rightharpoonup> int) \<Rightarrow> string \<Rightarrow> fft_state \<Rightarrow> py_error + fft_state" where
  "rfft_pass array nfft di st =
     and_then (resolution array di st) (\<lambda>dxv.
     and_then (case nfft di of None \<Rightarrow> Inl KeyError | Some n \<Rightarrow> Inr n) (\<lambda>n.
     and_then (rfftfreq n dxv) (\<lambda>freq.
     and_then (da_rfft (spectrum_array st) (index_of di (dims array))) (\<lambda>x.
     Inr (st\<lparr>spectrum_array := x,
             spectrum_coords := (spectrum_coords st)(''f_'' @ di \<mapsto> freq),
             dx_dict := (dx_dict st)(di \<mapsto> Some dxv),
             first := False\<rparr>)))))"

definition fft_pass ::
  "DataArray \<Rightarrow> (string \<rightharpoonup> int) \<Rightarrow> bool \<Rightarrow> string \<Rightarrow> fft_state \<Rightarrow> py_error + fft_state" where
  "fft_pass array nfft shift di st =
     (let axis_num = index_of di (dims array) in
      and_then (resolution array di st) (\<lambda>dxv.
      and_then (case nfft di of None \<Rightarrow> Inl KeyError | Some n \<Rightarrow> Inr n) (\<lambda>n.
      and_then (fftfreq n dxv) (\<lambda>freq.
      and_then (da_fft (spectrum_array st) axis_num) (\<lambda>x.
      Inr (st\<lparr>spectrum_array := (if shift then priv_fftshift x (Some [axis_num]) else x),
              spectrum_coords :=
                (spectrum_coords st)(''f_'' @ di \<mapsto> (if shift then np_fftshift freq else freq)),
              dx_dict := (dx_dict st)(di \<mapsto> Some dxv),
              first := False\<rparr>))))))"

definition fft_dim ::
  "DataArray \<Rightarrow> (string \<rightharpoonup> int) \<Rightarrow> bool \<Rightarrow> string \<Rightarrow> fft_state \<Rightarrow> py_error + fft_state" where
  "fft_dim array nfft shift di st =
     (if first st \<and> \<not> iscomplexobj (spectrum_array st)
      then rfft_pass array nfft di st
      else fft_pass array nfft shift di st)"

text \<open>The loop over the requested dimensions (source lines 178 to 207).\<close>

fun fft_loop ::
  "DataArray \<Rightarrow> (string \<rightharpoonup> int) \<Rightarrow> bool \<Rightarrow> string list \<Rightarrow> fft_state \<Rightarrow> py_error + fft_state" where
  "fft_loop array nfft shift [] st = Inr st"
| "fft_loop array nfft shift (di # ds) st =
     (if di \<in> set (dims array)
      then and_then (fft_dim array nfft shift di st) (fft_loop array nfft shift ds)
      else fft_loop array nfft shift ds
             (st\<lparr>warnings := warnings st @ [''Cannot find dimension '' @ di @ '' in DataArray'']\<rparr>))"

text \<open>
  \<^verbatim>\<open>_fft\<close>: the dimensions of the result and the loop's variables before the loop
  (source lines 167 to 177), then the loop. The result is the spectrum's data, coordinates
  and dimensions; the state holds the first two, with the warnings.
\<close>

definition spectrum_dims :: "DataArray \<Rightarrow> string list \<Rightarrow> string list" where
  "spectrum_dims array dimn = map (\<lambda>di. if di \<notin> set dimn then di else ''f_'' @ di) (dims array)"

definition fft_state0 :: "DataArray \<Rightarrow> string list \<Rightarrow> (string \<rightharpoonup> real option) \<Rightarrow> fft_state" where
  "fft_state0 array dimn dx =
     \<lparr>spectrum_array = data array,
      spectrum_coords = (\<lambda>k. if k \<in> set (dims array) \<and> k \<notin> set dimn
                              then Some (coordinate array k) else None),
      dx_dict = dx, first = True, warnings = []\<rparr>"

definition priv_fft ::
  "DataArray \<Rightarrow> (string \<rightharpoonup> int) \<Rightarrow> string list \<Rightarrow> (string \<rightharpoonup> real option) \<Rightarrow> bool
     \<Rightarrow> py_error + (fft_state \<times> string list)" where
  "priv_fft array nfft dimn dx shift =
     and_then (fft_loop array nfft shift dimn (fft_state0 array dimn dx))
       (\<lambda>st. Inr (st, spectrum_dims array dimn))"

text \<open>
  \<^verbatim>\<open>xr.DataArray(data, coords=coords, dims=dims, name=name)\<close>: the constructor
  refuses a coordinate whose length is not the size of its dimension.
\<close>

definition xr_DataArray ::
  "ndarray \<Rightarrow> (string \<rightharpoonup> real list) \<Rightarrow> string list \<Rightarrow> string \<Rightarrow> py_error + DataArray" where
  "xr_DataArray x cs ds nm =
     (if length ds \<noteq> length (shape x) then Inl ValueError
      else if list_ex (\<lambda>i. case cs (ds ! i) of None \<Rightarrow> False | Some c \<Rightarrow> length c \<noteq> shape x ! i)
                [0..<length ds]
      then Inl ValueError
      else Inr \<lparr>data = x, dims = ds, coords = cs, attrs = Map.empty, name = Some nm\<rparr>)"

text \<open>
  \<^verbatim>\<open>_compute_norm_factor\<close>. An attribute that is absent reads as \<open>1\<close>. The loop
  divides the two factors dimension by dimension. A factor that is a string cannot be
  divided. Python raises on the division of a number by the integer \<open>0\<close>; a division by
  a zero \<open>df\<close>, a numpy float, gives an infinity that the real numbers do not have.
\<close>

definition attr_div_int :: "attr \<Rightarrow> int \<Rightarrow> py_error + attr" where
  "attr_div_int a n =
     (case a of
        Str s \<Rightarrow> Inl TypeError
      | Num v \<Rightarrow> if n = 0 then Inl ZeroDivisionError else Inr (Num (v / real_of_int n)))"

definition attr_div :: "attr \<Rightarrow> real \<Rightarrow> py_error + attr" where
  "attr_div a r = (case a of Num v \<Rightarrow> Inr (Num (v / r)) | Str s \<Rightarrow> Inl TypeError)"

fun norm_factor_loop ::
  "DataArray \<Rightarrow> (string \<rightharpoonup> int) \<Rightarrow> bool \<Rightarrow> string list \<Rightarrow> attr \<times> attr \<Rightarrow> py_error + attr \<times> attr" where
  "norm_factor_loop array nfft tapering [] (ps_factor, psd_factor) = Inr (ps_factor, psd_factor)"
| "norm_factor_loop array nfft tapering (di # ds) (ps_factor, psd_factor) =
     (if tapering then Inl NotImplementedError
      else
        and_then (getitem array (''f_'' @ di)) (\<lambda>f.
        and_then (if length f < 2 then Inl IndexError else Inr (f ! 1 - f ! 0)) (\<lambda>df.
        and_then (case nfft di of None \<Rightarrow> Inl KeyError | Some n \<Rightarrow> Inr n) (\<lambda>s1.
        and_then (attr_div_int ps_factor (s1 ^ 2)) (\<lambda>ps_factor'.
        and_then (attr_div psd_factor (df * real_of_int s1)) (\<lambda>psd_factor'.
        norm_factor_loop array nfft tapering ds (ps_factor', psd_factor')))))))"

definition priv_compute_norm_factor ::
  "DataArray \<Rightarrow> (string \<rightharpoonup> int) \<Rightarrow> string list \<Rightarrow> bool \<Rightarrow> py_error + DataArray" where
  "priv_compute_norm_factor array nfft dimn tapering =
     (let ps_factor = (case attrs array ''ps_factor'' of None \<Rightarrow> Num 1 | Some a \<Rightarrow> a);
          psd_factor = (case attrs array ''psd_factor'' of None \<Rightarrow> Num 1 | Some a \<Rightarrow> a)
      in and_then (norm_factor_loop array nfft tapering dimn (ps_factor, psd_factor))
           (\<lambda>(ps_factor', psd_factor').
              Inr (array\<lparr>attrs := (attrs array)(''ps_factor'' \<mapsto> ps_factor',
                                                    ''psd_factor'' \<mapsto> psd_factor')\<rparr>)))"

text \<open>
  \<^verbatim>\<open>array - array.mean(dim=new_dim)\<close>: the mean along the axes of the dimensions,
  subtracted item by item. The difference keeps dimensions, coordinates and name, and has no
  attributes.
\<close>

definition mean_axis :: "ndarray \<Rightarrow> nat \<Rightarrow> ndarray" where
  "mean_axis x k =
     x\<lparr>item := (\<lambda>idx. sum_list (map (\<lambda>j. item x (idx[k := j])) [0..<shape x ! k])
                         / of_nat (shape x ! k))\<rparr>"

definition zeromean :: "DataArray \<Rightarrow> string list \<Rightarrow> py_error + DataArray" where
  "zeromean array dimn =
     (if \<not> set dimn \<subseteq> set (dims array) then Inl ValueError
      else
        let mean_array = foldl mean_axis (data array) (map (\<lambda>di. index_of di (dims array)) dimn)
        in Inr (array\<lparr>data := (data array)\<lparr>item := (\<lambda>idx. item (data array) idx - item mean_array idx)\<rparr>,
                      attrs := Map.empty\<rparr>))"

text \<open>
  Modelled from the spec: \<^verbatim>\<open>_utils.infer_n_and_dims\<close> and \<^verbatim>\<open>_utils.infer_arg\<close>,
  of a module that is not among the sources (the spec's Axis/Dimension Resolver). Unset
  dimensions are the first dimension of the array; a requested dimension that the array lacks
  is skipped with a warning; a dimension without \<^verbatim>\<open>nfft\<close> takes its length; the
  resolution of a dimension is the caller's, or \<^verbatim>\<open>None\<close> for \<^verbatim>\<open>_fft\<close> to infer.
\<close>

definition resolve ::
  "DataArray \<Rightarrow> string list option \<Rightarrow> (string \<rightharpoonup> int) \<Rightarrow> (string \<rightharpoonup> real)
     \<Rightarrow> (string \<rightharpoonup> int) \<times> (string \<rightharpoonup> real option) \<times> string list \<times> string list" where
  "resolve array dimn nfft dx =
     (let requested = (case dimn of None \<Rightarrow> take 1 (dims array) | Some ds \<Rightarrow> ds);
          new_dim = filter (\<lambda>di. di \<in> set (dims array)) requested;
          new_nfft = (\<lambda>di. if di \<in> set new_dim
                             then Some (case nfft di of
                                          Some n \<Rightarrow> n
                                        | None \<Rightarrow> int (shape (data array) ! index_of di (dims array)))
                             else None);
          new_dx = (\<lambda>di. if di \<in> set new_dim then Some (dx di) else None)
      in (new_nfft, new_dx, new_dim,
          map (\<lambda>di. ''Cannot find dimension '' @ di @ '' in DataArray'')
              (filter (\<lambda>di. di \<notin> set (dims array)) requested)))"

text \<open>
  A string object, as \<^verbatim>\<open>is\<close> sees it: the interned object that a literal with these
  characters denotes, or another object with the same characters, such as a string built at
  run time.
\<close>

datatype py_str = Interned string | Other string

text \<open>
  \<^verbatim>\<open>fft\<close>. The result is the spectrum with the warnings issued. The caller's
  \<^verbatim>\<open>nfft\<close> and \<^verbatim>\<open>dx\<close> are per dimension; \<^verbatim>\<open>detrend\<close> is a string object or
  \<^verbatim>\<open>None\<close>, and the source tests it by identity (\<^verbatim>\<open>is\<close>) with its literals
  \<^verbatim>\<open>'zeromean'\<close> and \<^verbatim>\<open>'linear'\<close>.
\<close>

definition fft ::
  "DataArray \<Rightarrow> (string \<rightharpoonup> int) \<Rightarrow> string list option \<Rightarrow> (string \<rightharpoonup> real) \<Rightarrow> py_str option
     \<Rightarrow> bool \<Rightarrow> bool \<Rightarrow> py_error + (DataArray \<times> string list)" where
  "fft array nfft dimn dx detrend tapering shift =
     (case resolve array dimn nfft dx of (new_nfft, new_dx, new_dim, warns) \<Rightarrow>
      and_then (if detrend = Some (Interned ''zeromean'') then zeromean array new_dim
                else if detrend = Some (Interned ''linear'') then priv_detrend array new_dim
                else Inr array) (\<lambda>preproc_array0.
      and_then (if tapering then priv_tapper array new_dim else Inr preproc_array0) (\<lambda>preproc_array.
      and_then (priv_fft preproc_array new_nfft new_dim new_dx shift) (\<lambda>(st, sdims).
      and_then (xr_DataArray (spectrum_array st) (spectrum_coords st) sdims ''spectrum'')
        (\<lambda>spec.
      and_then (priv_compute_norm_factor spec new_nfft new_dim tapering) (\<lambda>spec'.
      Inr (spec', warns @ warnings st)))))))"

text \<open>
  \<^verbatim>\<open>ps\<close> and \<^verbatim>\<open>psd\<close>: the squared modulus of the spectrum, times the factor
  stored in its attributes. The description shows \<^verbatim>\<open>dim\<close> as \<^verbatim>\<open>'%s' % dim\<close> does
  for \<^verbatim>\<open>None\<close> and for a list of names.
\<close>

fun join_repr :: "string list \<Rightarrow> string" where
  "join_repr [] = []"
| "join_repr [di] = [CHR 0x27] @ di @ [CHR 0x27]"
| "join_repr (di # dj # ds) = [CHR 0x27] @ di @ [CHR 0x27] @ '', '' @ join_repr (dj # ds)"

definition format_dim :: "string list option \<Rightarrow> string" where
  "format_dim dimn = (case dimn of None \<Rightarrow> ''None'' | Some ds \<Rightarrow> ''['' @ join_repr ds @ '']'')"

definition spectral_power ::
  "DataArray \<Rightarrow> string \<Rightarrow> string \<Rightarrow> string \<Rightarrow> string option \<Rightarrow> py_error + DataArray" where
  "spectral_power spec factor nm description array_name =
     (case attrs spec factor of
        None \<Rightarrow> Inl KeyError
      | Some (Str s) \<Rightarrow> Inl TypeError
      | Some (Num v) \<Rightarrow>
          Inr \<lparr>data = \<lparr>shape = shape (data spec), iscomplexobj = False,
                       item = (\<lambda>idx. of_real (Re (item (data spec) idx * cnj (item (data spec) idx)) * v))\<rparr>,
               dims = dims spec, coords = coords spec,
               attrs = [''description'' \<mapsto> Str description],
               name = Some (case array_name of None \<Rightarrow> nm | Some a \<Rightarrow> nm @ ''_'' @ a)\<rparr>)"

definition ps ::
  "DataArray \<Rightarrow> (string \<rightharpoonup> int) \<Rightarrow> string list option \<Rightarrow> (string \<rightharpoonup> real) \<Rightarrow> py_str option
     \<Rightarrow> bool \<Rightarrow> bool \<Rightarrow> py_error + (DataArray \<times> string list)" where
  "ps array nfft dimn dx detrend tapering shift =
     and_then (fft array nfft dimn dx detrend tapering shift) (\<lambda>(spec, warns).
     and_then (spectral_power spec ''ps_factor'' ''PS''
                 (''Power Spectrum (PS) performed along dimension(s) '' @ format_dim dimn @ '' '')
                 (name array)) (\<lambda>power_spectrum.
     Inr (power_spectrum, warns)))"

definition psd ::
  "DataArray \<Rightarrow> (string \<rightharpoonup> int) \<Rightarrow> string list option \<Rightarrow> (string \<rightharpoonup> real) \<Rightarrow> py_str option
     \<Rightarrow> bool \<Rightarrow> bool \<Rightarrow> py_error + (DataArray \<times> string list)" where
  "psd array nfft dimn dx detrend tapering shift =
     and_then (fft array nfft dimn dx detrend tapering shift) (\<lambda>(spec, warns).
     and_then (spectral_power spec ''psd_factor'' ''PSD''
                 (''Power Spectrum Density (PSD) performed along dimension(s) ''
                    @ format_dim dimn @ '' '')
                 (name array)) (\<lambda>power_spectrum_density.
     Inr (power_spectrum_density, warns)))"


text \<open>
  The input of the spec's scenario: the values \<open>0, \<dots>, 7\<close> along the dimension
  \<^verbatim>\<open>t\<close>, at the coordinates \<open>0, \<dots>, 7\<close>.
\<close>

definition scenario_array :: DataArray where
  "scenario_array =
     \<lparr>data = \<lparr>shape = [8], iscomplexobj = False, item = (\<lambda>idx. of_nat (idx ! 0))\<rparr>,
      dims = [''t''], coords = [''t'' \<mapsto> map real [0..<8]], attrs = Map.empty, name = None\<rparr>"

subsection \<open>fitting.py\<close>

text \<open>
  The fit is modelled for a one-dimensional array: \<^verbatim>\<open>_order_and_stack\<close> returns such an
  array as it is, and \<^verbatim>\<open>_unstack\<close> has nothing to unstack. A coordinate is either of
  dtype \<^verbatim>\<open>datetime64[ns]\<close>, read as its integer ticks, or numeric.
\<close>

datatype coord_data = Datetime "int list" | Numeric "real list"

record Series =
  series_dim :: string
  series_coord :: coord_data
  series_values :: "real list"

text \<open>What the caller passes as \<^verbatim>\<open>periods\<close>: a number, or a list object.\<close>

datatype periods_arg = Scalar real | PyList "real list"

record Modes =
  amplitude :: "real list"
  phase :: "real list"
  offset :: real
  periods :: "real list"
  units :: string

text \<open>
  The length in seconds of a unit of \<^verbatim>\<open>pd.to_timedelta\<close>: the units of the docstring
  of \<^verbatim>\<open>sinfit\<close>, and the week and the other spellings of the hour and the minute.
  pandas knows further spellings, which are refused here.
\<close>

definition unit_seconds :: "string \<Rightarrow> py_error + real" where
  "unit_seconds u =
     (if u = ''W'' then Inr 604800 else if u = ''D'' then Inr 86400
      else if u = ''h'' \<or> u = ''H'' then Inr 3600
      else if u = ''m'' \<or> u = ''min'' then Inr 60
      else if u = ''s'' then Inr 1 else if u = ''ms'' then Inr (1 / 10 ^ 3)
      else if u = ''us'' then Inr (1 / 10 ^ 6) else if u = ''ns'' then Inr (1 / 10 ^ 9)
      else Inl ValueError)"

text \<open>Item-wise operations of two one-dimensional arrays, with numpy's broadcasting.\<close>

definition broadcast2 :: "(real \<Rightarrow> real \<Rightarrow> real) \<Rightarrow> real list \<Rightarrow> real list \<Rightarrow> py_error + real list" where
  "broadcast2 f a b =
     (if length a = length b then Inr (map2 f a b)
      else if length a = 1 then Inr (map (f (hd a)) b)
      else if length b = 1 then Inr (map (\<lambda>v. f v (hd b)) a)
      else Inl ValueError)"

text \<open>\<^verbatim>\<open>np.arctan2(y, x)\<close>: the angle of the point \<open>(x, y)\<close>, in \<open>(- \<pi>, \<pi>]\<close>.\<close>

definition arctan2 :: "real \<Rightarrow> real \<Rightarrow> real" where
  "arctan2 y x =
     (if 0 < x then arctan (y / x)
      else if x < 0 then (if 0 \<le> y then arctan (y / x) + pi else arctan (y / x) - pi)
      else if 0 < y then pi / 2 else if y < 0 then - (pi / 2) else 0)"

text \<open>The coefficient matrix of the fit (source lines 131 to 133).\<close>

definition design_matrix :: "real list \<Rightarrow> real list \<Rightarrow> real list list" where
  "design_matrix freqs t =
     transpose (map (\<lambda>f. map (\<lambda>\<tau>. cos (2 * pi * f * \<tau>)) t) (rev freqs) @
                [replicate (length t) 1] @
                map (\<lambda>f. map (\<lambda>\<tau>. sin (2 * pi * f * \<tau>)) t) freqs)"

text \<open>Amplitudes, phases and offset from the solution (source lines 138 to 149).\<close>

definition decompose :: "nat \<Rightarrow> real list \<Rightarrow> py_error + real list \<times> real list \<times> real" where
  "decompose n c =
     (let b = rev (take (n div 2) c);
          a = drop (n div 2 + 1) c
      in and_then (broadcast2 (\<lambda>u v. sqrt (u\<^sup>2 + v\<^sup>2)) a b) (\<lambda>amplitude.
         and_then (broadcast2 (\<lambda>u v. arctan2 u v * 180 / pi) b a) (\<lambda>phase.
         if n div 2 < length c then Inr (amplitude, phase, c ! (n div 2)) else Inl IndexError)))"

text \<open>
  \<^verbatim>\<open>sinfit\<close>. The least-squares solver \<^verbatim>\<open>da.linalg.lstsq\<close> is a parameter. The first
  component of the result is the caller's \<^verbatim>\<open>periods\<close> object after the call: the list is
  sorted in place, before anything can raise.
\<close>

definition sinfit ::
  "(real list list \<Rightarrow> real list \<Rightarrow> py_error + real list) \<Rightarrow> Series \<Rightarrow> periods_arg \<Rightarrow> string option
     \<Rightarrow> coord_data option \<Rightarrow> string \<Rightarrow> periods_arg \<times> (py_error + Modes)" where
  "sinfit lstsq array periods_in dimn coord unit =
     (let dimn' = (case dimn of None \<Rightarrow> series_dim array | Some d \<Rightarrow> d);
          periods0 = (case periods_in of Scalar p \<Rightarrow> [p] | PyList l \<Rightarrow> l);
          n = 2 * length periods0 + 1;
          periods' = rev (sort periods0);
          caller = (case periods_in of Scalar p \<Rightarrow> Scalar p | PyList l \<Rightarrow> PyList periods')
      in (caller,
          if dimn' \<noteq> series_dim array then Inl ValueError
          else
            and_then (case (case coord of None \<Rightarrow> series_coord array | Some co \<Rightarrow> co) of
                        Datetime ticks \<Rightarrow>
                          and_then (unit_seconds unit) (\<lambda>secs.
                          Inr (map (\<lambda>k. real_of_int k * (1 / 10 ^ 9)) ticks,
                               map (\<lambda>p. 1 / (p * secs)) periods'))
                      | Numeric ts \<Rightarrow> Inl TypeError) (\<lambda>(t, freqs).
            and_then (lstsq (design_matrix freqs t) (series_values array)) (\<lambda>c.
            and_then (decompose n c) (\<lambda>(amp, ph, off).
            if length amp = length periods' \<and> length ph = length periods'
            then Inr \<lparr>amplitude = amp, phase = ph, offset = off, periods = periods',
                      units = unit\<rparr>
            else Inl ValueError)))))"

text \<open>\<^verbatim>\<open>sinval\<close>, for modes without further dimensions.\<close>

definition sinval :: "Modes \<Rightarrow> coord_data \<Rightarrow> py_error + real list" where
  "sinval modes coord =
     and_then (case coord of
                 Datetime ticks \<Rightarrow>
                   and_then (unit_seconds (units modes)) (\<lambda>secs.
                   Inr (map (\<lambda>k. real_of_int k * (1 / 10 ^ 9)) ticks,
                        map (\<lambda>p. p * secs) (periods modes)))
               | Numeric ts \<Rightarrow> Inr (ts, periods modes)) (\<lambda>(t, pers).
     Inr (map (\<lambda>\<tau>. foldl (\<lambda>res p. res + amplitude modes ! p *
                                         sin (2 * pi * \<tau> / pers ! p + phase modes ! p * pi / 180))
                         (offset modes) [0..<length pers]) t))"

section \<open>Properties\<close>

subsection \<open>Unfolding a successful call\<close>

lemma and_then_Inr_iff:
  "and_then r f = Inr y \<longleftrightarrow> (\<exists>v. r = Inr v \<and> f v = Inr y)"
  by (cases r) (simp_all add: and_then_def)

lemma and_then_InrE:
  assumes "and_then r f = Inr y"
  obtains v where "r = Inr v" and "f v = Inr y"
  using assms by (cases r) (simp_all add: and_then_def)

lemma norm_factor_loop_Inr:
  "norm_factor_loop array nfft tapering ds (Num p, Num q) = Inr r \<Longrightarrow>
     r = (Num (p * prod_list (map (\<lambda>di. 1 / (real_of_int (the (nfft di)))\<^sup>2) ds)),
          Num (q * prod_list (map (\<lambda>di. 1 / ((coordinate array (''f_'' @ di) ! 1
                                                  - coordinate array (''f_'' @ di) ! 0)
                                                 * real_of_int (the (nfft di)))) ds)))"
proof (induction ds arbitrary: p q)
  case Nil
  then show ?case by simp
next
  case (Cons di ds)
  from Cons.prems obtain f n where
    t: "\<not> tapering" and f: "getitem array (''f_'' @ di) = Inr f" and l: "\<not> length f < 2"
    and n: "nfft di = Some n" and nz: "n \<noteq> 0"
    and rest: "norm_factor_loop array nfft tapering ds
                 (Num (p / real_of_int (n ^ 2)), Num (q / ((f ! 1 - f ! 0) * real_of_int n))) = Inr r"
    by (auto simp: and_then_Inr_iff attr_div_def attr_div_int_def split: if_splits option.splits)
  have fc: "f = coordinate array (''f_'' @ di)"
    using f by (auto simp: getitem_def split: if_splits)
  show ?case
    using Cons.IH [OF rest] n by (simp add: fc)
qed

lemma compute_norm_factor_Inr:
  assumes "priv_compute_norm_factor array nfft ds tapering = Inr array'"
    and "attrs array ''ps_factor'' = None" and "attrs array ''psd_factor'' = None"
  shows "attrs array' ''ps_factor'' =
           Some (Num (prod_list (map (\<lambda>di. 1 / (real_of_int (the (nfft di)))\<^sup>2) ds)))"
    and "attrs array' ''psd_factor'' =
           Some (Num (prod_list (map (\<lambda>di. 1 / ((coordinate array (''f_'' @ di) ! 1
                                                  - coordinate array (''f_'' @ di) ! 0)
                                                 * real_of_int (the (nfft di)))) ds)))"
    and "data array' = data array" and "coords array' = coords array" and "dims array' = dims array"
  using assms norm_factor_loop_Inr [of array nfft tapering ds 1 1]
  by (auto simp: priv_compute_norm_factor_def and_then_Inr_iff)

lemma xr_DataArray_Inr:
  "xr_DataArray x cs ds nm = Inr a \<Longrightarrow>
     a = \<lparr>data = x, dims = ds, coords = cs, attrs = Map.empty, name = Some nm\<rparr>"
  by (auto simp: xr_DataArray_def split: if_splits)

lemma fft_InrE:
  assumes f: "fft array nfft dimn dx detrend tapering shift = Inr (spec, warns)"
      and r: "resolve array dimn nfft dx = (new_nfft, new_dx, new_dim, w)"
  obtains pre st sd spec0 where
    "if detrend = Some (Interned ''zeromean'') then zeromean array new_dim = Inr pre else pre = array"
    "\<not> tapering" "detrend \<noteq> Some (Interned ''linear'')"
    "priv_fft pre new_nfft new_dim new_dx shift = Inr (st, sd)"
    "xr_DataArray (spectrum_array st) (spectrum_coords st) sd ''spectrum'' = Inr spec0"
    "priv_compute_norm_factor spec0 new_nfft new_dim tapering = Inr spec"
    "warns = w @ warnings st"
proof -
  have f0: "and_then (if detrend = Some (Interned ''zeromean'') then zeromean array new_dim
                else if detrend = Some (Interned ''linear'') then priv_detrend array new_dim
                else Inr array) (\<lambda>preproc_array0.
      and_then (if tapering then priv_tapper array new_dim else Inr preproc_array0) (\<lambda>preproc_array.
      and_then (priv_fft preproc_array new_nfft new_dim new_dx shift) (\<lambda>(st, sdims).
      and_then (xr_DataArray (spectrum_array st) (spectrum_coords st) sdims ''spectrum'')
        (\<lambda>spec.
      and_then (priv_compute_norm_factor spec new_nfft new_dim tapering) (\<lambda>spec'.
      Inr (spec', w @ warnings st)))))) = Inr (spec, warns)"
    using f unfolding fft_def r by simp
  from f0 obtain pre0 where
    a: "(if detrend = Some (Interned ''zeromean'') then zeromean array new_dim
         else if detrend = Some (Interned ''linear'') then priv_detrend array new_dim
         else Inr array) = Inr pre0"
    and f1: "and_then (if tapering then priv_tapper array new_dim else Inr pre0) (\<lambda>preproc_array.
      and_then (priv_fft preproc_array new_nfft new_dim new_dx shift) (\<lambda>(st, sdims).
      and_then (xr_DataArray (spectrum_array st) (spectrum_coords st) sdims ''spectrum'')
        (\<lambda>spec.
      and_then (priv_compute_norm_factor spec new_nfft new_dim tapering) (\<lambda>spec'.
      Inr (spec', w @ warnings st))))) = Inr (spec, warns)"
    by (rule and_then_InrE)
  from a have l: "detrend \<noteq> Some (Interned ''linear'')"
    by (auto simp: priv_detrend_def split: if_splits)
  from a l have p0: "if detrend = Some (Interned ''zeromean'') then zeromean array new_dim = Inr pre0
                     else pre0 = array"
    by (simp split: if_splits)
  from f1 obtain pre1 where
    a1: "(if tapering then priv_tapper array new_dim else Inr pre0) = Inr pre1"
    and f2: "and_then (priv_fft pre1 new_nfft new_dim new_dx shift) (\<lambda>(st, sdims).
      and_then (xr_DataArray (spectrum_array st) (spectrum_coords st) sdims ''spectrum'')
        (\<lambda>spec.
      and_then (priv_compute_norm_factor spec new_nfft new_dim tapering) (\<lambda>spec'.
      Inr (spec', w @ warnings st)))) = Inr (spec, warns)"
    by (rule and_then_InrE)
  from a1 have t: "\<not> tapering" and p1: "pre1 = pre0"
    by (auto simp: priv_tapper_def split: if_splits)
  from f2 obtain v where
    b: "priv_fft pre1 new_nfft new_dim new_dx shift = Inr v"
    and f3: "(case v of (st, sdims) \<Rightarrow>
      and_then (xr_DataArray (spectrum_array st) (spectrum_coords st) sdims ''spectrum'')
        (\<lambda>spec.
      and_then (priv_compute_norm_factor spec new_nfft new_dim tapering) (\<lambda>spec'.
      Inr (spec', w @ warnings st)))) = Inr (spec, warns)"
    by (rule and_then_InrE)
  obtain st sd where v: "v = (st, sd)"
    by (cases v)
  from f3 have f4: "and_then (xr_DataArray (spectrum_array st) (spectrum_coords st) sd ''spectrum'')
        (\<lambda>spec.
      and_then (priv_compute_norm_factor spec new_nfft new_dim tapering) (\<lambda>spec'.
      Inr (spec', w @ warnings st))) = Inr (spec, warns)"
    unfolding v by simp
  from f4 obtain spec0 where
    c: "xr_DataArray (spectrum_array st) (spectrum_coords st) sd ''spectrum'' = Inr spec0"
    and f5: "and_then (priv_compute_norm_factor spec0 new_nfft new_dim tapering) (\<lambda>spec'.
      Inr (spec', w @ warnings st)) = Inr (spec, warns)"
    by (rule and_then_InrE)
  from f5 obtain spec1 where
    d: "priv_compute_norm_factor spec0 new_nfft new_dim tapering = Inr spec1"
    and f6: "Inr (spec1, w @ warnings st) = (Inr (spec, warns) :: py_error + (DataArray \<times> string list))"
    by (rule and_then_InrE)
  from f6 have e: "warns = w @ warnings st" and s1: "spec1 = spec"
    by simp_all
  show thesis
    using that [OF p0 t l b [unfolded v p1] c d [unfolded s1] e] .
qed

lemma fft_Inr_norm:
  assumes f: "fft array nfft dimn dx detrend tapering shift = Inr (spec, warns)"
      and r: "resolve array dimn nfft dx = (new_nfft, new_dx, new_dim, w)"
  shows "attrs spec ''ps_factor'' =
           Some (Num (prod_list (map (\<lambda>di. 1 / (real_of_int (the (new_nfft di)))\<^sup>2) new_dim)))
       \<and> attrs spec ''psd_factor'' =
           Some (Num (prod_list (map (\<lambda>di. 1 / ((coordinate spec (''f_'' @ di) ! 1
                                                  - coordinate spec (''f_'' @ di) ! 0)
                                                 * real_of_int (the (new_nfft di)))) new_dim)))"
proof (rule fft_InrE [OF f r], goal_cases)
  case (1 pre st sd spec0)
  note x = 1(5) and c = 1(6)
  have a0: "attrs spec0 ''ps_factor'' = None" "attrs spec0 ''psd_factor'' = None"
    using xr_DataArray_Inr [OF x] by simp_all
  note n = compute_norm_factor_Inr [OF c a0]
  have co: "coordinate spec k = coordinate spec0 k" for k
    by (simp add: coordinate_def n(3-5) split: option.split)
  show ?case
    by (simp add: n(1,2) co)
qed


lemma scen_resolve:
  "resolve scenario_array (Some [''t'']) Map.empty [''t'' \<mapsto> 1] =
     ((\<lambda>di. if di = ''t'' then Some 8 else None),
      (\<lambda>di. if di = ''t'' then Some (Some 1) else None), [''t''], [])"
  by (simp add: resolve_def scenario_array_def fun_eq_iff Let_def)

lemma scen_rfftfreq: "rfftfreq 8 1 = Inr [0, 1/8, 1/4, 3/8, 1/2]"
  by (simp add: rfftfreq_def upt_rec)

lemma scen_priv_fft:
  "\<exists>st. priv_fft scenario_array (\<lambda>di. if di = ''t'' then Some 8 else None) [''t'']
      (\<lambda>di. if di = ''t'' then Some (Some 1) else None) shift = Inr (st, [''f_t''])
     \<and> spectrum_coords st = [''f_t'' \<mapsto> [0, 1/8, 1/4, 3/8, 1/2]]
     \<and> shape (spectrum_array st) = [5] \<and> warnings st = []"
  by (simp add: priv_fft_def fft_state0_def spectrum_dims_def fft_dim_def rfft_pass_def
      resolution_def scen_rfftfreq da_rfft_def and_then_def scenario_array_def fun_eq_iff Let_def)

lemma scen_fft:
  "\<exists>spec. fft scenario_array Map.empty (Some [''t'']) [''t'' \<mapsto> 1] None False shift = Inr (spec, [])
     \<and> dims spec = [''f_t''] \<and> coords spec = [''f_t'' \<mapsto> [0, 1/8, 1/4, 3/8, 1/2]]
     \<and> shape (data spec) = [5]"
proof -
  from scen_priv_fft [of shift] obtain st where
    p: "priv_fft scenario_array (\<lambda>di. if di = ''t'' then Some 8 else None) [''t'']
          (\<lambda>di. if di = ''t'' then Some (Some 1) else None) shift = Inr (st, [''f_t''])"
    and c: "spectrum_coords st = [''f_t'' \<mapsto> [0, 1/8, 1/4, 3/8, 1/2]]"
    and s: "shape (spectrum_array st) = [5]" and w: "warnings st = []"
    by blast
  have x: "xr_DataArray (spectrum_array st) (spectrum_coords st) [''f_t''] ''spectrum'' =
             Inr \<lparr>data = spectrum_array st, dims = [''f_t''], coords = spectrum_coords st,
                  attrs = Map.empty, name = Some ''spectrum''\<rparr>"
    by (simp add: xr_DataArray_def c s)
  show ?thesis
    by (simp add: fft_def scen_resolve p x [unfolded c] and_then_def priv_compute_norm_factor_def
        getitem_def coordinate_def attr_div_def attr_div_int_def c s w)
qed

lemma prod_list_inverse_squares_nonneg:
  "0 \<le> prod_list (map (\<lambda>di. 1 / (real_of_int (f di))\<^sup>2) ds)"
  by (induction ds) simp_all

subsection \<open>The passes of the loop\<close>

lemma length_mylist [simp]: "length (mylist n) = n"
  by (simp add: mylist_def Let_def)

lemma fftfreq_Inr:
  assumes "fftfreq n d = Inr f"
  shows "0 < n" and "length f = nat n" and "f ! 0 = 0"
    and "f = map (\<lambda>i. real_of_int i * (1 / (real_of_int n * d)))
                 (map int [0..<nat ((n - 1) div 2 + 1)] @
                  map (\<lambda>j. int j - n div 2) [0..<nat (n div 2)])"
proof -
  from assms have n: "0 < n" and nz: "real_of_int n * d \<noteq> 0"
    and f: "f = map (\<lambda>i. real_of_int i * (1 / (real_of_int n * d)))
                 (map int [0..<nat ((n - 1) div 2 + 1)] @
                  map (\<lambda>j. int j - n div 2) [0..<nat (n div 2)])"
    by (auto simp: fftfreq_def split: if_splits) 
  show "0 < n" by (rule n)
  show "length f = nat n" using n unfolding f by simp
  have "0 < nat ((n - 1) div 2 + 1)" using n by simp
  then show "f ! 0 = 0" unfolding f by (simp add: nth_append)
  show "f = map (\<lambda>i. real_of_int i * (1 / (real_of_int n * d)))
                 (map int [0..<nat ((n - 1) div 2 + 1)] @
                  map (\<lambda>j. int j - n div 2) [0..<nat (n div 2)])" by (rule f)
qed

lemma mylist_centre: "0 < n \<Longrightarrow> mylist n ! (n div 2) = 0"
proof -
  assume n: "0 < n"
  have l: "length [(n + 1) div 2..<n] = n div 2" by simp
  have "mylist n ! (n div 2) = [0..<(n + 1) div 2] ! 0"
    unfolding mylist_def Let_def using l by (simp add: nth_append)
  also have "\<dots> = 0" using n by (cases "(n + 1) div 2") (simp_all add: upt_rec)
  finally show ?thesis .
qed

lemma np_fftshift_centre:
  assumes "0 < length f" and "f ! 0 = 0"
  shows "np_fftshift f ! (length f div 2) = 0"
proof -
  have "length f div 2 < length (mylist (length f))" using assms(1) by simp
  then show ?thesis
    unfolding np_fftshift_def using mylist_centre [OF assms(1)] assms(2) by simp
qed


lemma priv_fftshift_one:
  "priv_fftshift x (Some [k]) =
     \<lparr>shape = shape x, iscomplexobj = iscomplexobj x,
      item = (\<lambda>idx. item x (idx[k := mylist (shape x ! k) ! (idx ! k)]))\<rparr>"
  by (simp add: priv_fftshift_def da_take_def)

lemma fft_pass_InrE:
  assumes "fft_pass array nfft shift di st = Inr st'"
  obtains dxv n freq x where
    "resolution array di st = Inr dxv" "nfft di = Some n" "fftfreq n dxv = Inr freq"
    "da_fft (spectrum_array st) (index_of di (dims array)) = Inr x"
    "st' = st\<lparr>spectrum_array :=
                  (if shift then priv_fftshift x (Some [index_of di (dims array)]) else x),
               spectrum_coords :=
                  (spectrum_coords st)(''f_'' @ di \<mapsto> (if shift then np_fftshift freq else freq)),
               dx_dict := (dx_dict st)(di \<mapsto> Some dxv),
               first := False\<rparr>"
proof -
  from assms obtain dxv where
    a: "resolution array di st = Inr dxv"
    and f1: "and_then (case nfft di of None \<Rightarrow> Inl KeyError | Some n \<Rightarrow> Inr n) (\<lambda>n.
      and_then (fftfreq n dxv) (\<lambda>freq.
      and_then (da_fft (spectrum_array st) (index_of di (dims array))) (\<lambda>x.
      Inr (st\<lparr>spectrum_array := (if shift then priv_fftshift x (Some [index_of di (dims array)]) else x),
              spectrum_coords :=
                (spectrum_coords st)(''f_'' @ di \<mapsto> (if shift then np_fftshift freq else freq)),
              dx_dict := (dx_dict st)(di \<mapsto> Some dxv),
              first := False\<rparr>)))) = Inr st'"
    unfolding fft_pass_def Let_def by (rule and_then_InrE)
  from f1 obtain n where
    b0: "(case nfft di of None \<Rightarrow> Inl KeyError | Some n \<Rightarrow> Inr n) = Inr n"
    and f2: "and_then (fftfreq n dxv) (\<lambda>freq.
      and_then (da_fft (spectrum_array st) (index_of di (dims array))) (\<lambda>x.
      Inr (st\<lparr>spectrum_array := (if shift then priv_fftshift x (Some [index_of di (dims array)]) else x),
              spectrum_coords :=
                (spectrum_coords st)(''f_'' @ di \<mapsto> (if shift then np_fftshift freq else freq)),
              dx_dict := (dx_dict st)(di \<mapsto> Some dxv),
              first := False\<rparr>))) = Inr st'"
    by (rule and_then_InrE)
  from b0 have b: "nfft di = Some n"
    by (simp split: option.splits)
  from f2 obtain freq where
    c: "fftfreq n dxv = Inr freq"
    and f3: "and_then (da_fft (spectrum_array st) (index_of di (dims array))) (\<lambda>x.
      Inr (st\<lparr>spectrum_array := (if shift then priv_fftshift x (Some [index_of di (dims array)]) else x),
              spectrum_coords :=
                (spectrum_coords st)(''f_'' @ di \<mapsto> (if shift then np_fftshift freq else freq)),
              dx_dict := (dx_dict st)(di \<mapsto> Some dxv),
              first := False\<rparr>)) = Inr st'"
    by (rule and_then_InrE)
  from f3 obtain x where
    d: "da_fft (spectrum_array st) (index_of di (dims array)) = Inr x"
    and e0: "Inr (st\<lparr>spectrum_array := (if shift then priv_fftshift x (Some [index_of di (dims array)]) else x),
              spectrum_coords :=
                (spectrum_coords st)(''f_'' @ di \<mapsto> (if shift then np_fftshift freq else freq)),
              dx_dict := (dx_dict st)(di \<mapsto> Some dxv),
              first := False\<rparr>) = (Inr st' :: py_error + fft_state)"
    by (rule and_then_InrE)
  from e0 have e: "st' = st\<lparr>spectrum_array :=
                  (if shift then priv_fftshift x (Some [index_of di (dims array)]) else x),
               spectrum_coords :=
                  (spectrum_coords st)(''f_'' @ di \<mapsto> (if shift then np_fftshift freq else freq)),
               dx_dict := (dx_dict st)(di \<mapsto> Some dxv),
               first := False\<rparr>"
    by simp
  show thesis
    using that [OF a b c d e] .
qed

lemma zeromean_iscomplexobj:
  "zeromean array ds = Inr pre \<Longrightarrow> iscomplexobj (data pre) = iscomplexobj (data array)"
  by (auto simp: zeromean_def Let_def split: if_splits)

lemma fft_loop_Nil: "fft_loop array nfft shift [] = Inr"
  by (rule ext) simp

lemma priv_fft_single_real:
  assumes "\<not> iscomplexobj (data pre)" and "new_dim = [d] \<or> new_dim = []"
  shows "priv_fft pre new_nfft new_dim new_dx True = priv_fft pre new_nfft new_dim new_dx False"
  using assms by (auto simp: priv_fft_def fft_state0_def fft_dim_def fft_loop_Nil)

lemma and_then_cong_Inr:
  "(\<And>v. r = Inr v \<Longrightarrow> f v = g v) \<Longrightarrow> and_then r f = and_then r g"
  by (cases r) (simp_all add: and_then_def)





lemma rfft_pass_InrE:
  assumes "rfft_pass array nfft di st = Inr st'"
  obtains dxv n freq x where
    "resolution array di st = Inr dxv" "nfft di = Some n" "rfftfreq n dxv = Inr freq"
    "da_rfft (spectrum_array st) (index_of di (dims array)) = Inr x"
    "st' = st\<lparr>spectrum_array := x,
               spectrum_coords := (spectrum_coords st)(''f_'' @ di \<mapsto> freq),
               dx_dict := (dx_dict st)(di \<mapsto> Some dxv),
               first := False\<rparr>"
proof -
  from assms obtain dxv where
    a: "resolution array di st = Inr dxv"
    and f1: "and_then (case nfft di of None \<Rightarrow> Inl KeyError | Some n \<Rightarrow> Inr n) (\<lambda>n.
      and_then (rfftfreq n dxv) (\<lambda>freq.
      and_then (da_rfft (spectrum_array st) (index_of di (dims array))) (\<lambda>x.
      Inr (st\<lparr>spectrum_array := x,
              spectrum_coords := (spectrum_coords st)(''f_'' @ di \<mapsto> freq),
              dx_dict := (dx_dict st)(di \<mapsto> Some dxv),
              first := False\<rparr>)))) = Inr st'"
    unfolding rfft_pass_def by (rule and_then_InrE)
  from f1 obtain n where
    b0: "(case nfft di of None \<Rightarrow> Inl KeyError | Some n \<Rightarrow> Inr n) = Inr n"
    and f2: "and_then (rfftfreq n dxv) (\<lambda>freq.
      and_then (da_rfft (spectrum_array st) (index_of di (dims array))) (\<lambda>x.
      Inr (st\<lparr>spectrum_array := x,
              spectrum_coords := (spectrum_coords st)(''f_'' @ di \<mapsto> freq),
              dx_dict := (dx_dict st)(di \<mapsto> Some dxv),
              first := False\<rparr>))) = Inr st'"
    by (rule and_then_InrE)
  from b0 have b: "nfft di = Some n"
    by (simp split: option.splits)
  from f2 obtain freq where
    c: "rfftfreq n dxv = Inr freq"
    and f3: "and_then (da_rfft (spectrum_array st) (index_of di (dims array))) (\<lambda>x.
      Inr (st\<lparr>spectrum_array := x,
              spectrum_coords := (spectrum_coords st)(''f_'' @ di \<mapsto> freq),
              dx_dict := (dx_dict st)(di \<mapsto> Some dxv),
              first := False\<rparr>)) = Inr st'"
    by (rule and_then_InrE)
  from f3 obtain x where
    d: "da_rfft (spectrum_array st) (index_of di (dims array)) = Inr x"
    and e0: "Inr (st\<lparr>spectrum_array := x,
              spectrum_coords := (spectrum_coords st)(''f_'' @ di \<mapsto> freq),
              dx_dict := (dx_dict st)(di \<mapsto> Some dxv),
              first := False\<rparr>) = (Inr st' :: py_error + fft_state)"
    by (rule and_then_InrE)
  from e0 have e: "st' = st\<lparr>spectrum_array := x,
               spectrum_coords := (spectrum_coords st)(''f_'' @ di \<mapsto> freq),
               dx_dict := (dx_dict st)(di \<mapsto> Some dxv),
               first := False\<rparr>"
    by simp
  show thesis
    using that [OF a b c d e] .
qed







subsection \<open>Dimensions that the array lacks\<close>

lemma and_then_assoc:
  "and_then (and_then r f) g = and_then r (\<lambda>v. and_then (f v) g)"
  by (cases r) (simp_all add: and_then_def)

lemma and_then_Inr_left [simp]: "and_then (Inr v) f = f v"
  by (simp add: and_then_def)

lemma and_then_Inl_left [simp]: "and_then (Inl e) f = Inl e"
  by (simp add: and_then_def)

lemma resolution_warnings [simp]:
  "resolution array di (st\<lparr>warnings := w\<rparr>) = resolution array di st"
  by (simp add: resolution_def)

lemma state_update_order:
  "st\<lparr>warnings := w, spectrum_array := x, spectrum_coords := c, dx_dict := d, first := f\<rparr> =
   st\<lparr>spectrum_array := x, spectrum_coords := c, dx_dict := d, first := f, warnings := w\<rparr>"
  by (cases st) simp

lemma rfft_pass_warnings:
  "rfft_pass array nfft di (st\<lparr>warnings := w\<rparr>) =
     and_then (rfft_pass array nfft di st) (\<lambda>s. Inr (s\<lparr>warnings := w\<rparr>))"
  by (simp add: rfft_pass_def and_then_assoc state_update_order)

lemma fft_pass_warnings:
  "fft_pass array nfft shift di (st\<lparr>warnings := w\<rparr>) =
     and_then (fft_pass array nfft shift di st) (\<lambda>s. Inr (s\<lparr>warnings := w\<rparr>))"
  by (simp add: fft_pass_def Let_def and_then_assoc state_update_order)

lemma fft_dim_warnings:
  "fft_dim array nfft shift di (st\<lparr>warnings := w\<rparr>) =
     and_then (fft_dim array nfft shift di st) (\<lambda>s. Inr (s\<lparr>warnings := w\<rparr>))"
  by (simp add: fft_dim_def rfft_pass_warnings fft_pass_warnings)

lemma fft_dim_keeps_warnings:
  "fft_dim array nfft shift di st = Inr s \<Longrightarrow> warnings s = warnings st"
  by (auto simp: fft_dim_def split: if_splits elim!: rfft_pass_InrE fft_pass_InrE)

lemma fft_loop_overwrite:
  "and_then (fft_loop array nfft shift ds (st\<lparr>warnings := w\<rparr>)) (\<lambda>s. Inr (s\<lparr>warnings := c\<rparr>)) =
   and_then (fft_loop array nfft shift ds st) (\<lambda>s. Inr (s\<lparr>warnings := c\<rparr>))"
proof (induction ds arbitrary: st w)
  case Nil
  show ?case by simp
next
  case (Cons di ds)
  show ?case
  proof (cases "di \<in> set (dims array)")
    case True
    have "and_then (fft_loop array nfft shift (di # ds) (st\<lparr>warnings := w\<rparr>))
            (\<lambda>s. Inr (s\<lparr>warnings := c\<rparr>)) =
          and_then (fft_dim array nfft shift di st) (\<lambda>s1.
            and_then (fft_loop array nfft shift ds (s1\<lparr>warnings := w\<rparr>))
              (\<lambda>s. Inr (s\<lparr>warnings := c\<rparr>)))"
      using True by (simp add: fft_dim_warnings and_then_assoc)
    also have "\<dots> = and_then (fft_dim array nfft shift di st) (\<lambda>s1.
            and_then (fft_loop array nfft shift ds s1) (\<lambda>s. Inr (s\<lparr>warnings := c\<rparr>)))"
      by (simp add: Cons.IH)
    also have "\<dots> = and_then (fft_loop array nfft shift (di # ds) st) (\<lambda>s. Inr (s\<lparr>warnings := c\<rparr>))"
      using True by (simp add: and_then_assoc)
    finally show ?thesis .
  next
    case False
    have "and_then (fft_loop array nfft shift (di # ds) (st\<lparr>warnings := w\<rparr>))
            (\<lambda>s. Inr (s\<lparr>warnings := c\<rparr>)) =
          and_then (fft_loop array nfft shift ds st) (\<lambda>s. Inr (s\<lparr>warnings := c\<rparr>))"
      using False Cons.IH [where st = st and w = "w @ [''Cannot find dimension '' @ di @ '' in DataArray'']"]
      by simp
    also have "\<dots> = and_then (fft_loop array nfft shift (di # ds) st) (\<lambda>s. Inr (s\<lparr>warnings := c\<rparr>))"
      using False
        Cons.IH [where st = st
                   and w = "warnings st @ [''Cannot find dimension '' @ di @ '' in DataArray'']"]
      by simp
    finally show ?thesis .
  qed
qed

lemma fft_loop_skips_absent:
  "fft_loop array nfft shift ds st =
     and_then (fft_loop array nfft shift (filter (\<lambda>di. di \<in> set (dims array)) ds) st)
       (\<lambda>s. Inr (s\<lparr>warnings := warnings st @
                      map (\<lambda>di. ''Cannot find dimension '' @ di @ '' in DataArray'')
                        (filter (\<lambda>di. di \<notin> set (dims array)) ds)\<rparr>))"
proof (induction ds arbitrary: st)
  case Nil
  show ?case by simp
next
  case (Cons di ds)
  let ?W = "\<lambda>ds. map (\<lambda>di. ''Cannot find dimension '' @ di @ '' in DataArray'')
                        (filter (\<lambda>di. di \<notin> set (dims array)) ds)"
  let ?F = "filter (\<lambda>di. di \<in> set (dims array))"
  show ?case
  proof (cases "di \<in> set (dims array)")
    case True
    have "fft_loop array nfft shift (di # ds) st =
          and_then (fft_dim array nfft shift di st) (fft_loop array nfft shift ds)"
      using True by simp
    also have "\<dots> = and_then (fft_dim array nfft shift di st) (\<lambda>s1.
            and_then (fft_loop array nfft shift (?F ds) s1)
              (\<lambda>s. Inr (s\<lparr>warnings := warnings s1 @ ?W ds\<rparr>)))"
      by (rule and_then_cong_Inr) (rule Cons.IH)
    also have "\<dots> = and_then (fft_dim array nfft shift di st) (\<lambda>s1.
            and_then (fft_loop array nfft shift (?F ds) s1)
              (\<lambda>s. Inr (s\<lparr>warnings := warnings st @ ?W ds\<rparr>)))"
      by (rule and_then_cong_Inr) (simp add: fft_dim_keeps_warnings)
    finally show ?thesis
      using True by (simp add: and_then_assoc)
  next
    case False
    let ?w = "''Cannot find dimension '' @ di @ '' in DataArray''"
    have "fft_loop array nfft shift (di # ds) st =
          and_then (fft_loop array nfft shift (?F ds) (st\<lparr>warnings := warnings st @ [?w]\<rparr>))
              (\<lambda>s. Inr (s\<lparr>warnings := (warnings st @ [?w]) @ ?W ds\<rparr>))"
      using False Cons.IH [of "st\<lparr>warnings := warnings st @ [?w]\<rparr>"] by simp
    also have "\<dots> = and_then (fft_loop array nfft shift (?F ds) st)
              (\<lambda>s. Inr (s\<lparr>warnings := (warnings st @ [?w]) @ ?W ds\<rparr>))"
      by (rule fft_loop_overwrite)
    finally show ?thesis
      using False by simp
  qed
qed


lemma fft_state0_filter:
  "fft_state0 array (filter (\<lambda>di. di \<in> set (dims array)) dimn) dx = fft_state0 array dimn dx"
  by (auto simp: fft_state0_def fun_eq_iff)

lemma spectrum_dims_filter:
  "spectrum_dims array (filter (\<lambda>di. di \<in> set (dims array)) dimn) = spectrum_dims array dimn"
  by (simp add: spectrum_dims_def)

lemma priv_fft_skips_absent:
  "priv_fft array nfft dimn dx shift =
     and_then (priv_fft array nfft (filter (\<lambda>di. di \<in> set (dims array)) dimn) dx shift)
       (\<lambda>(st, sdims).
          Inr (st\<lparr>warnings := map (\<lambda>di. ''Cannot find dimension '' @ di @ '' in DataArray'')
                                (filter (\<lambda>di. di \<notin> set (dims array)) dimn)\<rparr>, sdims))"
  unfolding priv_fft_def fft_state0_filter spectrum_dims_filter
  by (subst fft_loop_skips_absent) (simp add: and_then_assoc fft_state0_def)

lemma resolve_Some:
  "resolve array (Some ds) nfft dx =
     ((\<lambda>di. if di \<in> set (filter (\<lambda>di. di \<in> set (dims array)) ds)
             then Some (case nfft di of
                          Some n \<Rightarrow> n
                        | None \<Rightarrow> int (shape (data array) ! index_of di (dims array)))
             else None),
      (\<lambda>di. if di \<in> set (filter (\<lambda>di. di \<in> set (dims array)) ds) then Some (dx di) else None),
      filter (\<lambda>di. di \<in> set (dims array)) ds,
      map (\<lambda>di. ''Cannot find dimension '' @ di @ '' in DataArray'')
        (filter (\<lambda>di. di \<notin> set (dims array)) ds))"
  by (simp add: resolve_def Let_def)

lemma fft_skips_absent:
  "fft array nfft (Some ds) dx detrend tapering shift =
     and_then (fft array nfft (Some (filter (\<lambda>di. di \<in> set (dims array)) ds)) dx detrend tapering shift)
       (\<lambda>(spec, w).
          Inr (spec, map (\<lambda>di. ''Cannot find dimension '' @ di @ '' in DataArray'')
                       (filter (\<lambda>di. di \<notin> set (dims array)) ds) @ w))"
proof -
  let ?F = "filter (\<lambda>di. di \<in> set (dims array)) ds"
  have ff: "filter (\<lambda>di. di \<in> set (dims array)) ?F = ?F"
    and fn: "filter (\<lambda>di. di \<notin> set (dims array)) ?F = []"
    by simp_all
  note r1 = resolve_Some [of array ds nfft dx]
  note r2 = resolve_Some [of array ?F nfft dx, unfolded ff fn list.map]
  show ?thesis
    unfolding fft_def r1 r2 prod.case
    by (simp add: and_then_assoc split_def split del: if_split)
qed

lemma scen_fft_absent:
  "\<exists>spec. fft scenario_array Map.empty (Some [''zz'', ''t'']) [''t'' \<mapsto> 1] None False False =
            Inr (spec, [''Cannot find dimension zz in DataArray''])
        \<and> fft scenario_array Map.empty (Some [''t'']) [''t'' \<mapsto> 1] None False False = Inr (spec, [])"
proof -
  from scen_fft [of False] obtain spec where
    f: "fft scenario_array Map.empty (Some [''t'']) [''t'' \<mapsto> 1] None False False = Inr (spec, [])"
    by blast
  have "fft scenario_array Map.empty (Some [''zz'', ''t'']) [''t'' \<mapsto> 1] None False False =
            Inr (spec, [''Cannot find dimension zz in DataArray''])"
    by (subst fft_skips_absent) (simp add: scenario_array_def f [unfolded scenario_array_def])
  with f show ?thesis by blast
qed

subsection \<open>The coefficient matrix\<close>

lemma nth_column: "map (\<lambda>j. xs ! j ! i) [0..<length xs] = map (\<lambda>r. r ! i) xs"
  by (rule nth_equalityI) simp_all

lemma transpose_rows:
  assumes "\<And>r. r \<in> set xs \<Longrightarrow> length r = n" and "xs \<noteq> []"
  shows "transpose xs = map (\<lambda>i. map (\<lambda>r. r ! i) xs) [0..<n]"
proof -
  have "transpose xs = map (\<lambda>i. map (\<lambda>j. xs ! j ! i) [0..<length xs]) [0..<n]"
    using assms by (intro transpose_rectangle) simp_all
  then show ?thesis
    by (simp only: nth_column)
qed

lemma design_matrix_rows:
  "design_matrix freqs t =
     map (\<lambda>\<tau>. map (\<lambda>f. cos (2 * pi * f * \<tau>)) (rev freqs) @ [1] @
               map (\<lambda>f. sin (2 * pi * f * \<tau>)) freqs) t"
proof -
  define R where "R = map (\<lambda>f. map (\<lambda>\<tau>. cos (2 * pi * f * \<tau>)) t) (rev freqs) @
            [replicate (length t) 1] @
            map (\<lambda>f. map (\<lambda>\<tau>. sin (2 * pi * f * \<tau>)) t) freqs"
  have rect: "length r = length t" if "r \<in> set R" for r
    using that unfolding R_def by auto
  have ne: "R \<noteq> []"
    unfolding R_def by simp
  have tr: "transpose R = map (\<lambda>i. map (\<lambda>r. r ! i) R) [0..<length t]"
    using rect ne by (rule transpose_rows)
  have row: "map (\<lambda>r. r ! i) R =
             map (\<lambda>f. cos (2 * pi * f * t ! i)) (rev freqs) @ [1] @
               map (\<lambda>f. sin (2 * pi * f * t ! i)) freqs" if "i < length t" for i
    using that unfolding R_def by simp
  have "design_matrix freqs t = transpose R"
    unfolding design_matrix_def R_def ..
  also have "\<dots> = map (\<lambda>\<tau>. map (\<lambda>f. cos (2 * pi * f * \<tau>)) (rev freqs) @ [1] @
               map (\<lambda>f. sin (2 * pi * f * \<tau>)) freqs) t"
    unfolding tr by (rule nth_equalityI) (simp_all add: row)
  finally show ?thesis .
qed


lemma unit_seconds_pos: "unit_seconds u = Inr secs \<Longrightarrow> 0 < secs"
  by (auto simp: unit_seconds_def split: if_splits)

lemma inverse_of_descending:
  assumes "sorted (rev xs)" and "\<And>p. p \<in> set xs \<Longrightarrow> 0 < p" and "0 < (s::real)"
  shows "sorted (map (\<lambda>p. 1 / (p * s)) xs)"
  using assms
proof (induction xs)
  case Nil
  show ?case by simp
next
  case (Cons x xs)
  have d: "sorted (rev xs)" and le: "\<And>y. y \<in> set xs \<Longrightarrow> y \<le> x"
    using Cons.prems(1) by (auto simp: sorted_append)
  have "1 / (x * s) \<le> 1 / (y * s)" if "y \<in> set xs" for y
  proof -
    have "0 < y" "y \<le> x" using that Cons.prems(2) le by auto
    then show ?thesis using \<open>0 < s\<close> by (simp add: frac_le)
  qed
  then show ?case
    using Cons.IH [OF d] Cons.prems(2,3) by auto
qed

lemma broadcast2_same:
  "length a = length b \<Longrightarrow> broadcast2 f a b = Inr (map2 f a b)"
  by (simp add: broadcast2_def)

lemma decompose_full:
  assumes "length c = 2 * k + 1"
  shows "decompose (2 * k + 1) c =
           Inr (map2 (\<lambda>u v. sqrt (u\<^sup>2 + v\<^sup>2)) (drop (k + 1) c) (rev (take k c)),
                map2 (\<lambda>u v. arctan2 u v * 180 / pi) (rev (take k c)) (drop (k + 1) c),
                c ! k)"
proof -
  have h: "(2 * k + 1) div 2 = k" by simp
  have l: "length (drop (k + 1) c) = length (rev (take k c))"
    using assms by simp
  show ?thesis
    unfolding decompose_def Let_def h
    using assms by (simp add: broadcast2_def and_then_def)
qed

subsection \<open>Unsupported options\<close>

lemma resolve_new_dim_subset:
  "resolve array dimn nfft dx = (new_nfft, new_dx, new_dim, warns) \<Longrightarrow>
     set new_dim \<subseteq> set (dims array)"
  by (auto simp: resolve_def Let_def)

lemma literal_linear_or_tapering_raises:
  "fft array nfft dimn dx (Some (Interned ''linear'')) tapering shift = Inl NotImplementedError
   \<and> fft array nfft dimn dx detrend True shift = Inl NotImplementedError
   \<and> ps array nfft dimn dx (Some (Interned ''linear'')) tapering shift = Inl NotImplementedError
   \<and> ps array nfft dimn dx detrend True shift = Inl NotImplementedError
   \<and> psd array nfft dimn dx (Some (Interned ''linear'')) tapering shift = Inl NotImplementedError
   \<and> psd array nfft dimn dx detrend True shift = Inl NotImplementedError"
proof -
  obtain new_nfft new_dx new_dim warns
    where r: "resolve array dimn nfft dx = (new_nfft, new_dx, new_dim, warns)"
    by (metis prod_cases4)
  have sub: "set new_dim \<subseteq> set (dims array)"
    using resolve_new_dim_subset [OF r] .
  have a: "fft array nfft dimn dx (Some (Interned ''linear'')) tapering shift
             = Inl NotImplementedError"
    by (simp add: fft_def r and_then_def priv_detrend_def)
  have b: "fft array nfft dimn dx detrend True shift = Inl NotImplementedError"
    using sub
    by (simp add: fft_def r and_then_def priv_detrend_def priv_tapper_def zeromean_def Let_def)
  show ?thesis
    using a b by (simp add: ps_def psd_def and_then_def)
qed

lemma other_string_is_no_detrend:
  "fft array nfft dimn dx (Some (Other chars)) tapering shift =
     fft array nfft dimn dx None tapering shift"
  by (simp add: fft_def)

text \<open>
  Claim C6. The claim fails on \<^verbatim>\<open>detrend\<close>: the source tests
  \<^verbatim>\<open>detrend is 'linear'\<close>, the identity with the object of its literal. A string
  with the characters \<^verbatim>\<open>linear\<close> that is another object, one built at run time, fails
  that test, so \<^verbatim>\<open>fft\<close> takes the last branch, transforms the array as it is and
  returns the spectrum of a call without \<^verbatim>\<open>detrend\<close>; here on the scenario's input.
  With the literal's own object, and with \<^verbatim>\<open>tapering=True\<close>, the three operations
  raise \<^verbatim>\<open>NotImplementedError\<close> before the transform (lemma
  \<open>literal_linear_or_tapering_raises\<close>).
\<close>

theorem fft_equal_string_not_refused:
  "\<exists>spec. fft scenario_array Map.empty (Some [''t'']) [''t'' \<mapsto> 1] (Some (Other ''linear''))
            False False = Inr (spec, [])
        \<and> fft scenario_array Map.empty (Some [''t'']) [''t'' \<mapsto> 1] None False False
            = Inr (spec, [])"
proof -
  from scen_fft [of False] obtain spec where
    f: "fft scenario_array Map.empty (Some [''t'']) [''t'' \<mapsto> 1] None False False = Inr (spec, [])"
    by blast
  then show ?thesis
    by (auto simp: other_string_is_no_detrend)
qed

subsection \<open>The caller's arguments\<close>

text \<open>
  Claim C8. The claim fails on \<^verbatim>\<open>sinfit\<close>: \<^verbatim>\<open>periods.sort(reverse=True)\<close> sorts
  the caller's list object in place. After a call with the list \<open>[12, 24]\<close> the caller
  holds \<open>[24, 12]\<close>, whatever the other arguments are and whether or not the call raises.
\<close>

theorem sinfit_sorts_callers_periods:
  "fst (sinfit lstsq array (PyList [12, 24]) dimn coord unit) = PyList [24, 12]"
  by (simp add: sinfit_def Let_def)

subsection \<open>The fit on a numeric coordinate\<close>

lemma sinfit_numeric_raises:
  "snd (sinfit lstsq \<lparr>series_dim = d, series_coord = Numeric ts, series_values = ys\<rparr>
          pa None None u) = Inl TypeError"
  by (simp add: sinfit_def Let_def and_then_def)

text \<open>
  Claim C4. On a coordinate that is not a datetime, \<^verbatim>\<open>sinfit\<close> divides the float
  \<open>1.\<close> by the Python list \<^verbatim>\<open>periods\<close> and raises \<^verbatim>\<open>TypeError\<close>: there are no
  modes for \<^verbatim>\<open>sinval\<close> to evaluate. Here the signal is
  \<open>5 + 2 sin (2 \<pi> t / 4)\<close> at \<open>t = 0, 1, 2, 3\<close>, fitted with the period \<open>4\<close>.
\<close>

theorem sinfit_numeric_coordinate_raises:
  "snd (sinfit lstsq \<lparr>series_dim = ''t'', series_coord = Numeric [0, 1, 2, 3],
                        series_values = [5, 7, 5, 3]\<rparr>
          (PyList [4]) None None ''s'') = Inl TypeError"
  by (simp add: sinfit_def Let_def and_then_def)

subsection \<open>Normalisation factors and power spectrum\<close>

text \<open>
  Claim C2. The spectrum that \<^verbatim>\<open>fft\<close> returns carries \<^verbatim>\<open>ps_factor\<close>, the product
  over the transformed dimensions of \<open>1 / nfft\<^sup>2\<close>, and \<^verbatim>\<open>psd_factor\<close>, the product
  of \<open>1 / (df * nfft)\<close>, where \<open>df\<close> is the difference of the first two values of the
  frequency coordinate of the dimension. The spectrum is new and has no prior factor, and an
  absent factor reads as \<open>1\<close> (lemma \<open>compute_norm_factor_Inr\<close>), so the products start
  from \<open>1\<close>.
\<close>

theorem fft_norm_factors:
  assumes "fft array nfft dimn dx detrend tapering shift = Inr (spec, warns)"
      and "resolve array dimn nfft dx = (new_nfft, new_dx, new_dim, w)"
  shows "attrs spec ''ps_factor'' =
           Some (Num (prod_list (map (\<lambda>di. 1 / (real_of_int (the (new_nfft di)))\<^sup>2) new_dim)))
       \<and> attrs spec ''psd_factor'' =
           Some (Num (prod_list (map (\<lambda>di. 1 / ((coordinate spec (''f_'' @ di) ! 1
                                                  - coordinate spec (''f_'' @ di) ! 0)
                                                 * real_of_int (the (new_nfft di)))) new_dim)))"
  using assms by (rule fft_Inr_norm)

theorem fft_norm_factors_witness:
  "\<exists>spec. fft scenario_array Map.empty (Some [''t'']) [''t'' \<mapsto> 1] None False False = Inr (spec, [])
     \<and> attrs spec ''ps_factor'' = Some (Num (1 / 64))
     \<and> attrs spec ''psd_factor'' = Some (Num 1)"
proof -
  from scen_fft [of False] obtain spec where
    f: "fft scenario_array Map.empty (Some [''t'']) [''t'' \<mapsto> 1] None False False = Inr (spec, [])"
    and c: "coords spec = [''f_t'' \<mapsto> [0, 1/8, 1/4, 3/8, 1/2]]"
    by blast
  have "attrs spec ''ps_factor'' = Some (Num (1 / 64)) \<and> attrs spec ''psd_factor'' = Some (Num 1)"
    using fft_norm_factors [OF f scen_resolve] by (simp add: coordinate_def c)
  with f show ?thesis
    by blast
qed

text \<open>
  Claim C7. Every item of the result of \<^verbatim>\<open>ps\<close> is real and non-negative, and the
  result's dtype is real; this holds for every input on which \<^verbatim>\<open>ps\<close> returns, the
  real-valued ones among them.
\<close>

theorem ps_real_nonnegative:
  assumes "ps array nfft dimn dx detrend tapering shift = Inr (out, warns)"
  shows "\<not> iscomplexobj (data out)
     \<and> (\<forall>idx. Im (item (data out) idx) = 0 \<and> 0 \<le> Re (item (data out) idx))"
proof -
  obtain new_nfft new_dx new_dim w
    where r: "resolve array dimn nfft dx = (new_nfft, new_dx, new_dim, w)"
    by (metis prod_cases4)
  from assms obtain v where
    f: "fft array nfft dimn dx detrend tapering shift = Inr v"
    and p: "(case v of (spec, warns) \<Rightarrow>
     and_then (spectral_power spec ''ps_factor'' ''PS''
                 (''Power Spectrum (PS) performed along dimension(s) '' @ format_dim dimn @ '' '')
                 (name array)) (\<lambda>power_spectrum.
     Inr (power_spectrum, warns))) = Inr (out, warns)"
    unfolding ps_def by (rule and_then_InrE)
  obtain spec w' where v: "v = (spec, w')"
    by (cases v)
  from p have p': "spectral_power spec ''ps_factor'' ''PS''
                 (''Power Spectrum (PS) performed along dimension(s) '' @ format_dim dimn @ '' '')
                 (name array) = Inr out"
    unfolding v by (auto elim: and_then_InrE)
  have a: "attrs spec ''ps_factor'' =
           Some (Num (prod_list (map (\<lambda>di. 1 / (real_of_int (the (new_nfft di)))\<^sup>2) new_dim)))"
    using fft_Inr_norm [OF f [unfolded v] r] by simp
  have d: "data out = \<lparr>shape = shape (data spec), iscomplexobj = False,
                       item = (\<lambda>idx. of_real (Re (item (data spec) idx * cnj (item (data spec) idx))
                          * prod_list (map (\<lambda>di. 1 / (real_of_int (the (new_nfft di)))\<^sup>2) new_dim)))\<rparr>"
    using p' by (auto simp: spectral_power_def a)
  have n: "0 \<le> Re (z * cnj z)" for z :: complex
    by (simp add: complex_mult_cnj)
  show ?thesis
    unfolding d using prod_list_inverse_squares_nonneg [of "\<lambda>di. the (new_nfft di)" new_dim] n
    by simp
qed

theorem ps_real_nonnegative_witness:
  "\<exists>out. ps scenario_array Map.empty (Some [''t'']) [''t'' \<mapsto> 1] None False True = Inr (out, [])
     \<and> \<not> iscomplexobj (data out)
     \<and> (\<forall>idx. Im (item (data out) idx) = 0 \<and> 0 \<le> Re (item (data out) idx))"
proof -
  from scen_fft [of True] obtain spec where
    f: "fft scenario_array Map.empty (Some [''t'']) [''t'' \<mapsto> 1] None False True = Inr (spec, [])"
    by blast
  have a: "attrs spec ''ps_factor'' = Some (Num (1 / 64))"
    using fft_Inr_norm [OF f scen_resolve] by simp
  have "\<exists>out. ps scenario_array Map.empty (Some [''t'']) [''t'' \<mapsto> 1] None False True = Inr (out, [])"
    by (simp add: ps_def f and_then_def spectral_power_def a)
  then obtain out where
    p: "ps scenario_array Map.empty (Some [''t'']) [''t'' \<mapsto> 1] None False True = Inr (out, [])"
    by blast
  from ps_real_nonnegative [OF p] p show ?thesis
    by blast
qed

subsection \<open>The shift\<close>

text \<open>
  Claim C5. A dimension that takes the complex transform, with \<^verbatim>\<open>shift=True\<close>: the
  frequency coordinate, of length \<open>n = nfft\<close>, is read in the order of the indices
  \<open>\<lceil>n/2\<rceil>, \<dots>, n - 1, 0, \<dots>, \<lceil>n/2\<rceil> - 1\<close>, and so are the items of the data along
  the axis, of its own length. The zero frequency is at the index \<open>n div 2\<close> of the
  coordinate, for an even \<open>n\<close> and for an odd one.
\<close>

theorem shift_rotates_coordinate_and_axis:
  assumes c: "\<not> (first st \<and> \<not> iscomplexobj (spectrum_array st))"
      and f: "fft_dim array nfft True di st = Inr st'"
  shows "\<exists>n dxv freq x.
           resolution array di st = Inr dxv \<and> nfft di = Some n
           \<and> fftfreq n dxv = Inr freq \<and> length freq = nat n
           \<and> da_fft (spectrum_array st) (index_of di (dims array)) = Inr x
           \<and> spectrum_coords st' (''f_'' @ di) =
               Some (map (\<lambda>i. freq ! i)
                      ([(nat n + 1) div 2..<nat n] @ [0..<(nat n + 1) div 2]))
           \<and> map (\<lambda>i. freq ! i) ([(nat n + 1) div 2..<nat n] @ [0..<(nat n + 1) div 2])
                 ! (nat n div 2) = 0
           \<and> shape (spectrum_array st') = shape x
           \<and> (\<forall>idx. item (spectrum_array st') idx =
                 item x (idx[index_of di (dims array) :=
                   ([(shape x ! index_of di (dims array) + 1) div 2..<shape x ! index_of di (dims array)]
                     @ [0..<(shape x ! index_of di (dims array) + 1) div 2])
                   ! (idx ! index_of di (dims array))]))"
proof -
  from c f have p: "fft_pass array nfft True di st = Inr st'"
    by (simp add: fft_dim_def split: if_splits)
  from p show ?thesis
  proof (rule fft_pass_InrE, goal_cases)
    case (1 dxv n freq x)
    note q = fftfreq_Inr [OF 1(3)]
    have z: "np_fftshift freq ! (nat n div 2) = 0"
      using np_fftshift_centre [of freq] q(1-3) by simp
    have s: "np_fftshift freq =
             map (\<lambda>i. freq ! i) ([(nat n + 1) div 2..<nat n] @ [0..<(nat n + 1) div 2])"
      by (simp add: np_fftshift_def mylist_def Let_def q(2))
    show ?case
      apply (rule exI [of _ n], rule exI [of _ dxv], rule exI [of _ freq], rule exI [of _ x])
      using 1(1-4) q(2) z s
      by (simp add: 1(5) priv_fftshift_one mylist_def Let_def)
  qed
qed


theorem shift_rotates_coordinate_and_axis_witness:
  "\<exists>st'. fft_dim scenario_array [''t'' \<mapsto> 8] True ''t''
            ((fft_state0 scenario_array [''t''] [''t'' \<mapsto> Some 1])\<lparr>first := False\<rparr>) = Inr st'
         \<and> (\<exists>c. spectrum_coords st' ''f_t'' = Some c \<and> length c = 8 \<and> c ! 4 = 0)"
proof -
  let ?st = "(fft_state0 scenario_array [''t''] [''t'' \<mapsto> Some 1])\<lparr>first := False\<rparr>"
  have h: "\<not> (first ?st \<and> \<not> iscomplexobj (spectrum_array ?st))"
    by simp
  have "\<exists>st'. fft_dim scenario_array [''t'' \<mapsto> 8] True ''t'' ?st = Inr st'"
    by (simp add: fft_dim_def fft_pass_def resolution_def fft_state0_def fftfreq_def da_fft_def
        scenario_array_def and_then_def Let_def)
  then obtain st' where f: "fft_dim scenario_array [''t'' \<mapsto> 8] True ''t'' ?st = Inr st'"
    by blast
  from shift_rotates_coordinate_and_axis [OF h f] obtain n freq where
    n: "[''t'' \<mapsto> 8] ''t'' = Some n" and l: "length freq = nat n"
    and c: "spectrum_coords st' (''f_'' @ ''t'') =
               Some (map (\<lambda>i. freq ! i)
                      ([(nat n + 1) div 2..<nat n] @ [0..<(nat n + 1) div 2]))"
    and z: "map (\<lambda>i. freq ! i) ([(nat n + 1) div 2..<nat n] @ [0..<(nat n + 1) div 2])
                 ! (nat n div 2) = 0"
    by blast
  from n have n8: "n = 8" by simp
  show ?thesis
    using f c z unfolding n8 by auto
qed

text \<open>
  Claim C10. With a real input, the first dimension takes the real transform whatever
  \<^verbatim>\<open>shift\<close> is: the pass of the real transform does not read \<^verbatim>\<open>shift\<close>. So a
  real input transformed along a single dimension gives the same outcome with
  \<^verbatim>\<open>shift=True\<close> and with \<^verbatim>\<open>shift=False\<close>.
\<close>

theorem shift_leaves_real_first_dimension:
  "(\<not> iscomplexobj (data array) \<longrightarrow>
      fft array nfft (Some [d]) dx detrend tapering True =
      fft array nfft (Some [d]) dx detrend tapering False)
   \<and> (first st \<and> \<not> iscomplexobj (spectrum_array st) \<longrightarrow>
        fft_dim array nfft True di st = rfft_pass array nfft di st
        \<and> fft_dim array nfft False di st = rfft_pass array nfft di st)"
proof -
  have a: "fft array nfft (Some [d]) dx detrend tapering True =
           fft array nfft (Some [d]) dx detrend tapering False"
    if real: "\<not> iscomplexobj (data array)"
  proof -
    obtain new_nfft new_dx new_dim w
      where r: "resolve array (Some [d]) nfft dx = (new_nfft, new_dx, new_dim, w)"
      by (metis prod_cases4)
    have nd: "new_dim = [d] \<or> new_dim = []"
      using r by (auto simp: resolve_def Let_def split: if_splits)
    let ?A = "if detrend = Some (Interned ''zeromean'') then zeromean array new_dim
              else if detrend = Some (Interned ''linear'') then priv_detrend array new_dim
              else Inr array"
    show ?thesis
    proof (cases ?A)
      case (Inl e)
      then show ?thesis
        unfolding fft_def r by (simp add: and_then_def)
    next
      case (Inr pre0)
      then have "\<not> iscomplexobj (data pre0)"
        using real by (auto simp: priv_detrend_def zeromean_iscomplexobj split: if_splits)
      then have k: "priv_fft pre0 new_nfft new_dim new_dx True =
                    priv_fft pre0 new_nfft new_dim new_dx False"
        using nd by (rule priv_fft_single_real)
      show ?thesis
        unfolding fft_def r using Inr by (simp add: and_then_def k priv_tapper_def)
    qed
  qed
  show ?thesis
    using a by (simp add: fft_dim_def)
qed

theorem shift_leaves_real_first_dimension_witness:
  "\<not> iscomplexobj (data scenario_array)
   \<and> (\<exists>spec. fft scenario_array Map.empty (Some [''t'']) [''t'' \<mapsto> 1] None False True
                  = Inr (spec, [])
              \<and> fft scenario_array Map.empty (Some [''t'']) [''t'' \<mapsto> 1] None False False
                  = Inr (spec, [])
              \<and> coords spec = [''f_t'' \<mapsto> [0, 1/8, 1/4, 3/8, 1/2]])"
proof -
  have real: "\<not> iscomplexobj (data scenario_array)"
    by (simp add: scenario_array_def)
  from scen_fft [of True] obtain spec where
    f: "fft scenario_array Map.empty (Some [''t'']) [''t'' \<mapsto> 1] None False True = Inr (spec, [])"
    and c: "coords spec = [''f_t'' \<mapsto> [0, 1/8, 1/4, 3/8, 1/2]]"
    by blast
  have "fft scenario_array Map.empty (Some [''t'']) [''t'' \<mapsto> 1] None False False = Inr (spec, [])"
    using shift_leaves_real_first_dimension
      [of scenario_array Map.empty "''t''" "[''t'' \<mapsto> 1]" None False] real f
    by simp
  with real f c show ?thesis
    by blast
qed

subsection \<open>Real and complex transforms\<close>



subsection \<open>A requested dimension that the array lacks\<close>

text \<open>
  Claim C9. \<^verbatim>\<open>_fft\<close> skips a requested dimension that the array lacks: its outcome
  is the outcome over the requested dimensions that the array has, with one warning that
  names each of the others, in their order. With the resolver as the spec describes it, the
  same holds of \<^verbatim>\<open>fft\<close>. In the scenario, \<^verbatim>\<open>fft\<close> along \<^verbatim>\<open>zz\<close> and
  \<^verbatim>\<open>t\<close> returns the spectrum along \<^verbatim>\<open>t\<close> and the warning for \<^verbatim>\<open>zz\<close>.
\<close>

theorem absent_dimension_skipped_with_warning:
  "priv_fft array nfft dimn dx shift =
     and_then (priv_fft array nfft (filter (\<lambda>di. di \<in> set (dims array)) dimn) dx shift)
       (\<lambda>(st, sdims).
          Inr (st\<lparr>warnings := map (\<lambda>di. ''Cannot find dimension '' @ di @ '' in DataArray'')
                                (filter (\<lambda>di. di \<notin> set (dims array)) dimn)\<rparr>, sdims))
   \<and> fft array nfft (Some ds) dxs detrend tapering shift =
     and_then (fft array nfft (Some (filter (\<lambda>di. di \<in> set (dims array)) ds)) dxs detrend tapering shift)
       (\<lambda>(spec, w).
          Inr (spec, map (\<lambda>di. ''Cannot find dimension '' @ di @ '' in DataArray'')
                       (filter (\<lambda>di. di \<notin> set (dims array)) ds) @ w))
   \<and> (\<exists>spec. fft scenario_array Map.empty (Some [''zz'', ''t'']) [''t'' \<mapsto> 1] None False False =
                 Inr (spec, [''Cannot find dimension zz in DataArray''])
             \<and> fft scenario_array Map.empty (Some [''t'']) [''t'' \<mapsto> 1] None False False
                 = Inr (spec, []))"
  using priv_fft_skips_absent [of array nfft dimn dx shift]
    fft_skips_absent [of array nfft ds dxs detrend tapering shift] scen_fft_absent
  by (intro conjI)

subsection \<open>The sinusoidal fit\<close>

text \<open>
  Claim C3. On a datetime coordinate, with \<open>k\<close> positive periods: every row of the
  coefficient matrix is the \<open>k\<close> cosines of the frequencies in descending order, then
  \<open>1\<close>, then the \<open>k\<close> sines of the frequencies in ascending order, \<open>2 k + 1\<close>
  columns in all. From a solution \<open>c\<close> of length \<open>2 k + 1\<close>, with \<open>b\<close> the first
  \<open>k\<close> coefficients reversed and \<open>a\<close> the last \<open>k\<close>, the amplitudes are
  \<open>sqrt (a\<^sup>2 + b\<^sup>2)\<close>, the phases \<open>arctan2 b a * 180 / \<pi>\<close>, and the offset is the
  coefficient of index \<open>k\<close>. The frequencies are the inverses of the periods sorted from
  the longest to the shortest.
\<close>

theorem sinfit_design_and_decomposition:
  assumes pos: "list_all (\<lambda>p. 0 < p) pl"
      and per: "pl = (case periods_in of Scalar p \<Rightarrow> [p] | PyList l \<Rightarrow> l)"
      and dm: "(case dimn of None \<Rightarrow> series_dim array | Some d \<Rightarrow> d) = series_dim array"
      and co: "(case coord of None \<Rightarrow> series_coord array | Some co \<Rightarrow> co) = Datetime ticks"
      and u: "unit_seconds unit = Inr secs"
      and fr: "freqs = map (\<lambda>p. 1 / (p * secs)) (rev (sort pl))"
      and t: "t = map (\<lambda>k. real_of_int k * (1 / 10 ^ 9)) ticks"
      and solve: "lstsq (design_matrix freqs t) (series_values array) = Inr c"
      and len: "length c = 2 * length pl + 1"
  shows "design_matrix freqs t =
           map (\<lambda>\<tau>. map (\<lambda>f. cos (2 * pi * f * \<tau>)) (rev freqs) @ [1] @
                     map (\<lambda>f. sin (2 * pi * f * \<tau>)) freqs) t
     \<and> list_all (\<lambda>row. length row = 2 * length pl + 1) (design_matrix freqs t)
     \<and> sorted freqs \<and> sorted (rev (rev freqs))
     \<and> snd (sinfit lstsq array periods_in dimn coord unit) =
         Inr \<lparr>amplitude = map2 (\<lambda>a b. sqrt (a\<^sup>2 + b\<^sup>2))
                             (drop (length pl + 1) c) (rev (take (length pl) c)),
              phase = map2 (\<lambda>b a. arctan2 b a * 180 / pi)
                         (rev (take (length pl) c)) (drop (length pl + 1) c),
              offset = c ! length pl,
              periods = rev (sort pl), units = unit\<rparr>"
proof -
  have secs: "0 < secs"
    using u by (rule unit_seconds_pos)
  have s: "sorted freqs"
    unfolding fr using pos secs by (intro inverse_of_descending) (simp_all add: list_all_iff)
  have lf: "length freqs = length pl"
    unfolding fr by simp
  have rows: "list_all (\<lambda>row. length row = 2 * length pl + 1) (design_matrix freqs t)"
    unfolding design_matrix_rows by (simp add: list_all_iff lf)
  have d: "decompose (2 * length pl + 1) c =
           Inr (map2 (\<lambda>u v. sqrt (u\<^sup>2 + v\<^sup>2)) (drop (length pl + 1) c) (rev (take (length pl) c)),
                map2 (\<lambda>u v. arctan2 u v * 180 / pi) (rev (take (length pl) c)) (drop (length pl + 1) c),
                c ! length pl)"
    using len by (rule decompose_full)
  have f: "snd (sinfit lstsq array periods_in dimn coord unit) =
         Inr \<lparr>amplitude = map2 (\<lambda>a b. sqrt (a\<^sup>2 + b\<^sup>2))
                             (drop (length pl + 1) c) (rev (take (length pl) c)),
              phase = map2 (\<lambda>b a. arctan2 b a * 180 / pi)
                         (rev (take (length pl) c)) (drop (length pl + 1) c),
              offset = c ! length pl,
              periods = rev (sort pl), units = unit\<rparr>"
    unfolding sinfit_def Let_def per [symmetric] dm co
    using len solve [unfolded t fr] d by (simp add: u and_then_def)
  show ?thesis
    using design_matrix_rows [of freqs t] rows s f by simp
qed


theorem sinfit_design_and_decomposition_witness:
  "list_all (\<lambda>p. 0 < p) [12, 24 :: real] \<and> unit_seconds ''h'' = Inr 3600
   \<and> snd (sinfit (\<lambda>X y. Inr [0, 0, 5, 2, 1])
            \<lparr>series_dim = ''time'', series_coord = Datetime [0, 3600000000000],
             series_values = [5, 5]\<rparr>
            (PyList [12, 24]) None None ''h'') =
       Inr \<lparr>amplitude = [2, 1], phase = [0, 0], offset = 5, periods = [24, 12], units = ''h''\<rparr>"
proof -
  have pos: "list_all (\<lambda>p. 0 < p) [12, 24 :: real]"
    by simp
  have u: "unit_seconds ''h'' = Inr 3600"
    by (simp add: unit_seconds_def)
  note th = sinfit_design_and_decomposition [where pl = "[12, 24]" and periods_in = "PyList [12, 24]" and dimn = None
      and coord = None and unit = "''h''" and secs = 3600 and ticks = "[0, 3600000000000]"
      and array = "\<lparr>series_dim = ''time'', series_coord = Datetime [0, 3600000000000],
             series_values = [5, 5]\<rparr>"
      and lstsq = "\<lambda>X y. Inr [0, 0, 5, 2, 1]" and c = "[0, 0, 5, 2, 1]",
      OF pos _ _ _ u refl refl]
  have "snd (sinfit (\<lambda>X y. Inr [0, 0, 5, 2, 1])
            \<lparr>series_dim = ''time'', series_coord = Datetime [0, 3600000000000],
             series_values = [5, 5]\<rparr>
            (PyList [12, 24]) None None ''h'') =
       Inr \<lparr>amplitude = [2, 1], phase = [0, 0], offset = 5, periods = [24, 12], units = ''h''\<rparr>"
    using th by (simp add: arctan2_def)
  with pos u show ?thesis
    by blast
qed

end
